theory Spec2Isabelle
  imports Complex_Main
begin

section \<open>Pezeshk, Zandieh and Tavakoli (2011) ground motion model\<close>

text \<open>
  A shallow embedding of \<^verbatim>\<open>pygmm/pezeshk_zandieh_tavakoli_2011.py\<close>. The class
  evaluates a published regression equation over the columns of a coefficient table with
  numpy's whole-array arithmetic. The embedding keeps that shape: a column is a list of
  floating-point values, an operator between a column and a Python scalar is broadcast
  over the column, and an operator between two columns works element by element.
\<close>

subsection \<open>Floating-point values\<close>

text \<open>
  A numpy \<^verbatim>\<open>float64\<close> is modelled as an exact real number or one of the three
  special values of IEEE 754. Rounding, the sign of zero and the range of a double are
  not modelled: \<open>Fin r\<close> stands for the double nearest to \<open>r\<close>, also where a double
  would overflow to \<open>inf\<close> or underflow to zero (\<^verbatim>\<open>np.power(10, x)\<close> above
  \<open>x = 308\<close>, a square below \<open>1e-324\<close>), and where Python's \<^verbatim>\<open>**\<close> on a float
  would raise \<^verbatim>\<open>OverflowError\<close>. Nothing below is therefore a statement about the
  finiteness of a double at the edge of its range. What is modelled is where the
  special values come from and how they travel: the logarithm of zero is \<open>-inf\<close>, the
  logarithm or square root of a negative number is \<open>nan\<close>, \<open>0 * inf\<close> and
  \<open>inf - inf\<close> are \<open>nan\<close>, and \<^verbatim>\<open>np.minimum\<close> and \<^verbatim>\<open>np.maximum\<close>
  hand a \<open>nan\<close> operand on.
\<close>

datatype float64 = Fin real | PInf | NInf | NaN

fun np_add :: "float64 \<Rightarrow> float64 \<Rightarrow> float64" where
  "np_add (Fin a) (Fin b) = Fin (a + b)"
| "np_add NaN y = NaN"
| "np_add x NaN = NaN"
| "np_add PInf NInf = NaN"
| "np_add NInf PInf = NaN"
| "np_add PInf y = PInf"
| "np_add x PInf = PInf"
| "np_add NInf y = NInf"
| "np_add x NInf = NInf"

fun np_mul :: "float64 \<Rightarrow> float64 \<Rightarrow> float64" where
  "np_mul (Fin a) (Fin b) = Fin (a * b)"
| "np_mul NaN y = NaN"
| "np_mul x NaN = NaN"
| "np_mul (Fin a) PInf = (if a = 0 then NaN else if 0 < a then PInf else NInf)"
| "np_mul (Fin a) NInf = (if a = 0 then NaN else if 0 < a then NInf else PInf)"
| "np_mul PInf (Fin b) = (if b = 0 then NaN else if 0 < b then PInf else NInf)"
| "np_mul NInf (Fin b) = (if b = 0 then NaN else if 0 < b then NInf else PInf)"
| "np_mul PInf PInf = PInf"
| "np_mul PInf NInf = NInf"
| "np_mul NInf PInf = NInf"
| "np_mul NInf NInf = PInf"

text \<open>\<^verbatim>\<open>x ** 2\<close> on an array of doubles is the product of \<open>x\<close> with itself.\<close>

definition np_square :: "float64 \<Rightarrow> float64" where
  "np_square x = np_mul x x"

text \<open>
  Division of an array element by a Python float. The two divisors of the source are the
  literals \<^verbatim>\<open>70.\<close> and \<^verbatim>\<open>140.\<close>; a zero divisor is the literal \<^verbatim>\<open>0.\<close>,
  which is positive zero.
\<close>

fun np_divide :: "float64 \<Rightarrow> real \<Rightarrow> float64" where
  "np_divide (Fin a) s =
     (if s = 0 then (if a = 0 then NaN else if 0 < a then PInf else NInf)
      else Fin (a / s))"
| "np_divide PInf s = (if s < 0 then NInf else PInf)"
| "np_divide NInf s = (if s < 0 then PInf else NInf)"
| "np_divide NaN s = NaN"

fun np_sqrt :: "float64 \<Rightarrow> float64" where
  "np_sqrt (Fin a) = (if a < 0 then NaN else Fin (sqrt a))"
| "np_sqrt PInf = PInf"
| "np_sqrt NInf = NaN"
| "np_sqrt NaN = NaN"

fun np_log10 :: "float64 \<Rightarrow> float64" where
  "np_log10 (Fin a) = (if a < 0 then NaN else if a = 0 then NInf else Fin (log 10 a))"
| "np_log10 PInf = PInf"
| "np_log10 NInf = NaN"
| "np_log10 NaN = NaN"

fun np_log :: "float64 \<Rightarrow> float64" where
  "np_log (Fin a) = (if a < 0 then NaN else if a = 0 then NInf else Fin (ln a))"
| "np_log PInf = PInf"
| "np_log NInf = NaN"
| "np_log NaN = NaN"

text \<open>\<^verbatim>\<open>np.power(10, x)\<close>: the base is the integer literal of the source.\<close>

fun np_power_10 :: "float64 \<Rightarrow> float64" where
  "np_power_10 (Fin a) = Fin (10 powr a)"
| "np_power_10 PInf = PInf"
| "np_power_10 NInf = Fin 0"
| "np_power_10 NaN = NaN"

fun np_minimum :: "float64 \<Rightarrow> float64 \<Rightarrow> float64" where
  "np_minimum (Fin a) (Fin b) = Fin (min a b)"
| "np_minimum NaN y = NaN"
| "np_minimum x NaN = NaN"
| "np_minimum NInf y = NInf"
| "np_minimum x NInf = NInf"
| "np_minimum PInf y = y"
| "np_minimum x PInf = x"

fun np_maximum :: "float64 \<Rightarrow> float64 \<Rightarrow> float64" where
  "np_maximum (Fin a) (Fin b) = Fin (max a b)"
| "np_maximum NaN y = NaN"
| "np_maximum x NaN = NaN"
| "np_maximum PInf y = PInf"
| "np_maximum x PInf = PInf"
| "np_maximum NInf y = y"
| "np_maximum x NInf = x"

fun isfinite :: "float64 \<Rightarrow> bool" where
  "isfinite (Fin a) = True"
| "isfinite PInf = False"
| "isfinite NInf = False"
| "isfinite NaN = False"

subsection \<open>Broadcasting\<close>

text \<open>
  An operator between two columns of the table works element by element; both columns
  come from the same table, so they have the same length. An operator between a column
  and a Python scalar applies the scalar to every element.
\<close>

definition arr_arr :: "(float64 \<Rightarrow> float64 \<Rightarrow> float64) \<Rightarrow> float64 list \<Rightarrow> float64 list \<Rightarrow> float64 list" where
  "arr_arr f xs ys = map2 f xs ys"

definition arr_scalar :: "(float64 \<Rightarrow> float64 \<Rightarrow> float64) \<Rightarrow> float64 list \<Rightarrow> real \<Rightarrow> float64 list" where
  "arr_scalar f xs s = map (\<lambda>x. f x (Fin s)) xs"

definition scalar_arr :: "(float64 \<Rightarrow> float64 \<Rightarrow> float64) \<Rightarrow> real \<Rightarrow> float64 list \<Rightarrow> float64 list" where
  "scalar_arr f s ys = map (\<lambda>y. f (Fin s) y) ys"

subsection \<open>The coefficient table\<close>

text \<open>
  \<^verbatim>\<open>COEFF\<close> is read from \<^verbatim>\<open>pezeshk_zandieh_tavakoli_2011.csv\<close>, which is not part
  of the source file; the table is a parameter of every function below. A row holds the
  period and the coefficients of that period, all of them finite numbers. \<^verbatim>\<open>c['c1']\<close>
  is the column of the field \<open>c1\<close>.
\<close>

record coeff_row =
  period :: real
  c1 :: real
  c2 :: real
  c3 :: real
  c4 :: real
  c5 :: real
  c6 :: real
  c7 :: real
  c8 :: real
  c9 :: real
  c10 :: real
  c11 :: real
  c12 :: real
  c13 :: real
  c14 :: real
  sigma_reg :: real

type_synonym coeff_table = "coeff_row list"

definition col :: "(coeff_row \<Rightarrow> real) \<Rightarrow> coeff_table \<Rightarrow> float64 list" where
  "col f c = map (\<lambda>r. Fin (f r)) c"

definition PERIODS :: "coeff_table \<Rightarrow> float64 list" where
  "PERIODS COEFF = col period COEFF"

definition INDEX_PGA :: nat where
  "INDEX_PGA = 0"

definition INDICES_PSA :: "nat list" where
  "INDICES_PSA = [1..<23]"

subsection \<open>Parameters and their validation\<close>

datatype error =
  ParameterOutOfRange string real real
| MissingParameter string
| KeyError string

record NumericParameter =
  name :: string
  required :: bool
  min_bound :: "real option"
  max_bound :: "real option"

definition PARAMS :: "NumericParameter list" where
  "PARAMS =
    [\<lparr>name = ''mag'', required = True, min_bound = Some 5, max_bound = Some 8\<rparr>,
     \<lparr>name = ''dist_rup'', required = True, min_bound = None, max_bound = Some 1000\<rparr>]"

text \<open>
  Modelled from the spec: the check of one parameter belongs to the base class
  \<^verbatim>\<open>model.Model\<close> and to \<^verbatim>\<open>model.NumericParameter\<close>, which are not in the source
  file. The specification says that each input is checked against its declared range at
  construction, that a value outside the range fails with \<open>ParameterOutOfRange\<close> naming
  the parameter, its value and the violated bound, that a required input that was not
  supplied fails with \<open>MissingParameter\<close>, and that nothing is clamped or defaulted.
  A failure names the bound that was violated, so a bound declared as \<^verbatim>\<open>None\<close>,
  which is no number, is read as no bound: no value violates it. The data model of the
  specification likewise leaves the range of \<^verbatim>\<open>dist_rup\<close> open below.
\<close>

definition check :: "NumericParameter \<Rightarrow> real option \<Rightarrow> error + real option" where
  "check p value =
    (case value of
       None \<Rightarrow> (if required p then Inl (MissingParameter (name p)) else Inr None)
     | Some v \<Rightarrow>
        (case min_bound p of
           Some lo \<Rightarrow>
             if v < lo then Inl (ParameterOutOfRange (name p) v lo)
             else (case max_bound p of
                     Some hi \<Rightarrow> if hi < v then Inl (ParameterOutOfRange (name p) v hi) else Inr (Some v)
                   | None \<Rightarrow> Inr (Some v))
         | None \<Rightarrow>
            (case max_bound p of
               Some hi \<Rightarrow> if hi < v then Inl (ParameterOutOfRange (name p) v hi) else Inr (Some v)
             | None \<Rightarrow> Inr (Some v))))"

text \<open>
  Modelled from the spec: the constructor of the base class, which checks the keyword
  arguments against \<^verbatim>\<open>PARAMS\<close>, in the order of the declaration, and stores the
  checked values as \<^verbatim>\<open>self.params\<close>. The first failing check ends the construction.
\<close>

fun check_inputs :: "NumericParameter list \<Rightarrow> (string \<rightharpoonup> real) \<Rightarrow> error + (string \<rightharpoonup> real)" where
  "check_inputs [] kwds = Inr Map.empty"
| "check_inputs (p # ps) kwds =
     (case check p (kwds (name p)) of
        Inl e \<Rightarrow> Inl e
      | Inr v \<Rightarrow>
         (case check_inputs ps kwds of
            Inl e \<Rightarrow> Inl e
          | Inr params \<Rightarrow> Inr (params(name p := v))))"

subsection \<open>The mean response\<close>

text \<open>
  \<^verbatim>\<open>_calc_ln_resp\<close> reads \<^verbatim>\<open>p['mag']\<close> and \<^verbatim>\<open>p['dist_rup']\<close>, two Python
  floats, and the columns of the table. Its one expression for \<^verbatim>\<open>log10_resp\<close> is a
  sum of seven operands, added from left to right; the three products that scale with
  distance and the anelastic product are named here, each with the lines it covers.
\<close>

definition calc_dist :: "real \<Rightarrow> coeff_table \<Rightarrow> float64 list" where
  \<comment> \<open>line 62\<close>
  "calc_dist dist_rup c =
     map np_sqrt (scalar_arr np_add (dist_rup ^ 2) (map np_square (col c11 c)))"

definition near_term :: "real \<Rightarrow> float64 list \<Rightarrow> coeff_table \<Rightarrow> float64 list" where
  \<comment> \<open>lines 68 to 71\<close>
  "near_term mag dist' c =
     arr_arr np_mul
       (arr_arr np_add (col c4 c) (arr_scalar np_mul (col c5 c) mag))
       (arr_scalar np_minimum (map np_log10 dist') (log 10 70))"

definition mid_term :: "real \<Rightarrow> float64 list \<Rightarrow> coeff_table \<Rightarrow> float64 list" where
  \<comment> \<open>lines 72 to 77\<close>
  "mid_term mag dist' c =
     arr_arr np_mul
       (arr_arr np_add (col c6 c) (arr_scalar np_mul (col c7 c) mag))
       (arr_scalar np_maximum
          (arr_scalar np_minimum
             (map np_log10 (map (\<lambda>x. np_divide x 70) dist'))
             (log 10 (140 / 70)))
          0)"

definition far_term :: "real \<Rightarrow> float64 list \<Rightarrow> coeff_table \<Rightarrow> float64 list" where
  \<comment> \<open>lines 78 and 79\<close>
  "far_term mag dist' c =
     arr_arr np_mul
       (arr_arr np_add (col c8 c) (arr_scalar np_mul (col c9 c) mag))
       (arr_scalar np_maximum (map np_log10 (map (\<lambda>x. np_divide x 140) dist')) 0)"

definition anelastic_term :: "float64 list \<Rightarrow> coeff_table \<Rightarrow> float64 list" where
  \<comment> \<open>line 80\<close>
  "anelastic_term dist' c = arr_arr np_mul (col c10 c) dist'"

definition calc_log10_resp :: "real \<Rightarrow> real \<Rightarrow> coeff_table \<Rightarrow> float64 list" where
  \<comment> \<open>lines 62 to 81\<close>
  "calc_log10_resp mag dist_rup c =
     (let dist' = calc_dist dist_rup c in
      arr_arr np_add
        (arr_arr np_add
          (arr_arr np_add
            (arr_arr np_add
              (arr_arr np_add
                (arr_arr np_add (col c1 c) (arr_scalar np_mul (col c2 c) mag))
                (arr_scalar np_mul (col c3 c) (mag ^ 2)))
              (near_term mag dist' c))
            (mid_term mag dist' c))
          (far_term mag dist' c))
        (anelastic_term dist' c))"

definition calc_ln_resp :: "real \<Rightarrow> real \<Rightarrow> coeff_table \<Rightarrow> float64 list" where
  \<comment> \<open>line 83\<close>
  "calc_ln_resp mag dist_rup c =
     (let log10_resp = calc_log10_resp mag dist_rup c;
          ln_resp = map np_log (map np_power_10 log10_resp)
      in ln_resp)"

subsection \<open>The standard deviation\<close>

definition calc_ln_std :: "real \<Rightarrow> coeff_table \<Rightarrow> float64 list" where
  "calc_ln_std mag c =
     (let ln_std_mean =
            (if mag \<le> 7
             then arr_arr np_add (arr_scalar np_mul (col c12 c) mag) (col c13 c)
             else scalar_arr np_add (- (695 / 100000) * mag) (col c14 c));
          ln_std = map np_sqrt
            (arr_arr np_add (map np_square ln_std_mean) (map np_square (col sigma_reg c)))
      in ln_std)"

subsection \<open>Construction\<close>

text \<open>
  An instance holds the checked parameters and the two sequences computed from them.
  \<^verbatim>\<open>__init__\<close> calls the constructor of the base class, which raises when a check
  fails, and then computes both sequences. The two calculations look their parameters
  up in \<^verbatim>\<open>self.params\<close>; a key that is not there raises \<^verbatim>\<open>KeyError\<close>.
\<close>

record model =
  params :: "string \<rightharpoonup> real"
  ln_resp :: "float64 list"
  ln_std :: "float64 list"

definition init :: "(string \<rightharpoonup> real) \<Rightarrow> coeff_table \<Rightarrow> error + model" where
  "init kwds COEFF =
     (case check_inputs PARAMS kwds of
        Inl e \<Rightarrow> Inl e
      | Inr p \<Rightarrow>
         (case p ''mag'' of
            None \<Rightarrow> Inl (KeyError ''mag'')
          | Some mag \<Rightarrow>
             (case p ''dist_rup'' of
                None \<Rightarrow> Inl (KeyError ''dist_rup'')
              | Some dist_rup \<Rightarrow>
                 Inr \<lparr>params = p,
                      ln_resp = calc_ln_resp mag dist_rup COEFF,
                      ln_std = calc_ln_std mag COEFF\<rparr>)))"

subsection \<open>The formulas of the specification\<close>

text \<open>
  The specification gives both calculations row by row, as formulas over the real
  numbers. They are written down here from its words, to be compared with the
  whole-array code above.
\<close>

definition spec_dist :: "real \<Rightarrow> coeff_row \<Rightarrow> real" where
  "spec_dist dist_rup r = sqrt (dist_rup ^ 2 + (c11 r) ^ 2)"

definition spec_near :: "real \<Rightarrow> real \<Rightarrow> coeff_row \<Rightarrow> real" where
  "spec_near mag dist' r =
     c1 r + c2 r * mag + c3 r * mag ^ 2 + (c4 r + c5 r * mag) * min (log 10 dist') (log 10 70)"

definition spec_mid :: "real \<Rightarrow> real \<Rightarrow> coeff_row \<Rightarrow> real" where
  "spec_mid mag dist' r =
     (c6 r + c7 r * mag) * max (min (log 10 (dist' / 70)) (log 10 (140 / 70))) 0"

definition spec_far :: "real \<Rightarrow> real \<Rightarrow> coeff_row \<Rightarrow> real" where
  "spec_far mag dist' r = (c8 r + c9 r * mag) * max (log 10 (dist' / 140)) 0"

definition spec_anelastic :: "real \<Rightarrow> coeff_row \<Rightarrow> real" where
  "spec_anelastic dist' r = c10 r * dist'"

definition spec_log10_resp :: "real \<Rightarrow> real \<Rightarrow> coeff_row \<Rightarrow> real" where
  "spec_log10_resp mag dist_rup r =
     (let dist' = spec_dist dist_rup r in
      spec_near mag dist' r + spec_mid mag dist' r + spec_far mag dist' r + spec_anelastic dist' r)"

definition spec_ln_resp :: "real \<Rightarrow> real \<Rightarrow> coeff_row \<Rightarrow> real" where
  "spec_ln_resp mag dist_rup r = ln (10 powr spec_log10_resp mag dist_rup r)"

definition spec_ln_std_mean :: "real \<Rightarrow> coeff_row \<Rightarrow> real" where
  "spec_ln_std_mean mag r =
     (if mag \<le> 7 then c12 r * mag + c13 r else - (695 / 100000) * mag + c14 r)"

definition spec_ln_std :: "real \<Rightarrow> coeff_row \<Rightarrow> real" where
  "spec_ln_std mag r = sqrt ((spec_ln_std_mean mag r) ^ 2 + (sigma_reg r) ^ 2)"

subsection \<open>A table for concrete instances\<close>

text \<open>
  The published coefficients are in the data file. The theorems below hold for every
  table; where one of them is instantiated, it is at this row, whose numbers are of the
  size of the published ones but are not taken from them, repeated over the 23 periods.
\<close>

definition example_row :: coeff_row where
  "example_row =
     \<lparr>period = 0, c1 = 3 / 2, c2 = 1 / 5, c3 = - (1 / 100), c4 = - 3, c5 = 1 / 4,
      c6 = 1 / 2, c7 = - (1 / 20), c8 = - 2, c9 = 1 / 10, c10 = - (1 / 2000), c11 = 6,
      c12 = - (1 / 20), c13 = 1, c14 = 7 / 10, sigma_reg = 1 / 4\<rparr>"

definition example_table :: coeff_table where
  "example_table = replicate 23 example_row"

section \<open>Properties\<close>

subsection \<open>Element by element\<close>

text \<open>
  The whole-array code, read at one index. The effective distance is a finite number,
  and it is positive as soon as the rupture distance or the row's \<open>c11\<close> is not zero.
\<close>

lemma calc_dist_nth:
  "i < length c \<Longrightarrow> calc_dist d c ! i = Fin (spec_dist d (c ! i))"
  by (simp add: calc_dist_def scalar_arr_def col_def spec_dist_def np_square_def power2_eq_square not_less)

lemma length_calc_dist: "length (calc_dist d c) = length c"
  by (simp add: calc_dist_def scalar_arr_def col_def)

lemma spec_dist_nonneg: "0 \<le> spec_dist d r"
  by (simp add: spec_dist_def)

lemma spec_dist_pos: "d \<noteq> 0 \<or> c11 r \<noteq> 0 \<Longrightarrow> 0 < spec_dist d r"
  unfolding spec_dist_def
  by (auto intro!: real_sqrt_gt_zero simp: sum_power2_gt_zero_iff)

lemma length_terms:
  "length dist' = length c \<Longrightarrow> length (near_term mag dist' c) = length c"
  "length dist' = length c \<Longrightarrow> length (mid_term mag dist' c) = length c"
  "length dist' = length c \<Longrightarrow> length (far_term mag dist' c) = length c"
  "length dist' = length c \<Longrightarrow> length (anelastic_term dist' c) = length c"
  by (simp_all add: near_term_def mid_term_def far_term_def anelastic_term_def
        arr_arr_def arr_scalar_def col_def)

lemma near_term_nth:
  "i < length c \<Longrightarrow> length dist' = length c \<Longrightarrow> dist' ! i = Fin x \<Longrightarrow> 0 < x \<Longrightarrow>
   near_term mag dist' c ! i = Fin ((c4 (c ! i) + c5 (c ! i) * mag) * min (log 10 x) (log 10 70))"
  by (simp add: near_term_def arr_arr_def arr_scalar_def col_def)

lemma mid_term_nth:
  "i < length c \<Longrightarrow> length dist' = length c \<Longrightarrow> dist' ! i = Fin x \<Longrightarrow> 0 < x \<Longrightarrow>
   mid_term mag dist' c ! i = Fin (spec_mid mag x (c ! i))"
  by (simp add: mid_term_def arr_arr_def arr_scalar_def col_def spec_mid_def)

lemma mid_term_nth_zero:
  "i < length c \<Longrightarrow> length dist' = length c \<Longrightarrow> dist' ! i = Fin 0 \<Longrightarrow>
   mid_term mag dist' c ! i = Fin 0"
  by (simp add: mid_term_def arr_arr_def arr_scalar_def col_def)

lemma far_term_nth:
  "i < length c \<Longrightarrow> length dist' = length c \<Longrightarrow> dist' ! i = Fin x \<Longrightarrow> 0 < x \<Longrightarrow>
   far_term mag dist' c ! i = Fin (spec_far mag x (c ! i))"
  by (simp add: far_term_def arr_arr_def arr_scalar_def col_def spec_far_def)

lemma far_term_nth_zero:
  "i < length c \<Longrightarrow> length dist' = length c \<Longrightarrow> dist' ! i = Fin 0 \<Longrightarrow>
   far_term mag dist' c ! i = Fin 0"
  by (simp add: far_term_def arr_arr_def arr_scalar_def col_def)

lemma anelastic_term_nth:
  "i < length c \<Longrightarrow> length dist' = length c \<Longrightarrow> dist' ! i = Fin x \<Longrightarrow>
   anelastic_term dist' c ! i = Fin (spec_anelastic x (c ! i))"
  by (simp add: anelastic_term_def arr_arr_def col_def spec_anelastic_def)

lemma length_calc_log10_resp: "length (calc_log10_resp mag d c) = length c"
  by (simp add: calc_log10_resp_def Let_def arr_arr_def arr_scalar_def col_def
        length_terms length_calc_dist)

lemma length_calc_ln_resp: "length (calc_ln_resp mag d c) = length c"
  by (simp add: calc_ln_resp_def Let_def length_calc_log10_resp)

lemma length_calc_ln_std: "length (calc_ln_std mag c) = length c"
  by (simp add: calc_ln_std_def Let_def arr_arr_def arr_scalar_def scalar_arr_def col_def)

lemma calc_log10_resp_nth:
  assumes "i < length c" and "0 < spec_dist d (c ! i)"
  shows "calc_log10_resp mag d c ! i = Fin (spec_log10_resp mag d (c ! i))"
proof -
  let ?ds = "calc_dist d c"
  have len: "length ?ds = length c" by (rule length_calc_dist)
  have di: "?ds ! i = Fin (spec_dist d (c ! i))" using assms(1) by (rule calc_dist_nth)
  note n = near_term_nth [OF assms(1) len di assms(2)]
  note m = mid_term_nth [OF assms(1) len di assms(2)]
  note f = far_term_nth [OF assms(1) len di assms(2)]
  note a = anelastic_term_nth [OF assms(1) len di]
  show ?thesis
    using assms(1)
    by (simp add: calc_log10_resp_def Let_def arr_arr_def arr_scalar_def col_def
          length_terms len n m f a spec_log10_resp_def spec_near_def)
qed

lemma calc_ln_resp_nth:
  assumes "i < length c" and "0 < spec_dist d (c ! i)"
  shows "calc_ln_resp mag d c ! i = Fin (spec_ln_resp mag d (c ! i))"
  using assms(1) calc_log10_resp_nth [OF assms]
  by (simp add: calc_ln_resp_def Let_def length_calc_log10_resp spec_ln_resp_def)

lemma np_sqrt_sum_squares:
  "np_sqrt (np_add (np_square (Fin a)) (np_square (Fin b))) = Fin (sqrt (a ^ 2 + b ^ 2))"
proof -
  have "\<not> a * a + b * b < 0" by (simp add: not_less)
  then show ?thesis by (simp add: np_square_def power2_eq_square)
qed

lemma calc_ln_std_nth:
  assumes "i < length c"
  shows "calc_ln_std mag c ! i = Fin (spec_ln_std mag (c ! i))"
proof (cases "mag \<le> 7")
  case True
  have "calc_ln_std mag c ! i =
        np_sqrt (np_add (np_square (Fin (c12 (c ! i) * mag + c13 (c ! i))))
                        (np_square (Fin (sigma_reg (c ! i)))))"
    using assms True
    by (simp add: calc_ln_std_def Let_def arr_arr_def arr_scalar_def col_def)
  then show ?thesis
    using True by (simp only: np_sqrt_sum_squares spec_ln_std_def spec_ln_std_mean_def if_True)
next
  case False
  have "calc_ln_std mag c ! i =
        np_sqrt (np_add (np_square (Fin (- (695 / 100000) * mag + c14 (c ! i))))
                        (np_square (Fin (sigma_reg (c ! i)))))"
    using assms False
    by (simp add: calc_ln_std_def Let_def arr_arr_def scalar_arr_def col_def)
  then show ?thesis
    using False by (simp only: np_sqrt_sum_squares spec_ln_std_def spec_ln_std_mean_def if_False)
qed

lemma abs_le_sqrt_sum: "\<bar>b\<bar> \<le> sqrt (a ^ 2 + b ^ 2)"
  by (metis real_sqrt_abs real_sqrt_le_iff le_add_same_cancel2 zero_le_power2)

lemma calc_ln_resp_sign: "calc_ln_resp mag (- d) c = calc_ln_resp mag d c"
  by (simp add: calc_ln_resp_def calc_log10_resp_def calc_dist_def)

lemma near_term_nth_zero:
  "i < length c \<Longrightarrow> length dist' = length c \<Longrightarrow> dist' ! i = Fin 0 \<Longrightarrow>
   near_term mag dist' c ! i = np_mul (Fin (c4 (c ! i) + c5 (c ! i) * mag)) NInf"
  by (simp add: near_term_def arr_arr_def arr_scalar_def col_def)

lemma not_finite_tail:
  "x = NaN \<or> x = PInf \<or> x = NInf \<Longrightarrow>
   \<not> isfinite (np_log (np_power_10
       (np_add (np_add (np_add (np_add (Fin a) x) (Fin b)) (Fin e)) (Fin f))))"
  by auto

lemma calc_ln_resp_nth_zero:
  assumes "i < length c" and "d = 0" and "c11 (c ! i) = 0"
  shows "\<not> isfinite (calc_ln_resp mag d c ! i)"
proof -
  let ?ds = "calc_dist d c"
  let ?k = "c4 (c ! i) + c5 (c ! i) * mag"
  have len: "length ?ds = length c" by (rule length_calc_dist)
  have di: "?ds ! i = Fin 0"
    using calc_dist_nth [OF assms(1), of d] assms(2,3) by (simp add: spec_dist_def)
  note n = near_term_nth_zero [OF assms(1) len di]
  note m = mid_term_nth_zero [OF assms(1) len di]
  note f = far_term_nth_zero [OF assms(1) len di]
  note a = anelastic_term_nth [OF assms(1) len di]
  obtain x where nx: "near_term mag ?ds c ! i = x" and x: "x = NaN \<or> x = PInf \<or> x = NInf"
    using n by simp
  have "calc_ln_resp mag d c ! i =
        np_log (np_power_10 (np_add (np_add (np_add (np_add
          (Fin (c1 (c ! i) + c2 (c ! i) * mag + c3 (c ! i) * mag ^ 2)) x)
          (Fin 0)) (Fin 0)) (Fin (spec_anelastic 0 (c ! i)))))"
    using assms(1)
    by (simp add: calc_ln_resp_def calc_log10_resp_def Let_def arr_arr_def arr_scalar_def
          col_def length_terms len nx m f a)
  then show ?thesis by (simp only: not_finite_tail [OF x] not_False_eq_True)
qed

subsection \<open>Construction, case by case\<close>

lemma check_inputs_PARAMS:
  "check_inputs PARAMS kwds =
     (case kwds ''mag'' of
        None \<Rightarrow> Inl (MissingParameter ''mag'')
      | Some m \<Rightarrow>
         if m < 5 then Inl (ParameterOutOfRange ''mag'' m 5)
         else if 8 < m then Inl (ParameterOutOfRange ''mag'' m 8)
         else (case kwds ''dist_rup'' of
                 None \<Rightarrow> Inl (MissingParameter ''dist_rup'')
               | Some d \<Rightarrow>
                  if 1000 < d then Inl (ParameterOutOfRange ''dist_rup'' d 1000)
                  else Inr [''dist_rup'' \<mapsto> d, ''mag'' \<mapsto> m]))"
  by (simp add: PARAMS_def check_def split: option.splits)

lemma init_eq:
  "init kwds COEFF =
     (case kwds ''mag'' of
        None \<Rightarrow> Inl (MissingParameter ''mag'')
      | Some m \<Rightarrow>
         if m < 5 then Inl (ParameterOutOfRange ''mag'' m 5)
         else if 8 < m then Inl (ParameterOutOfRange ''mag'' m 8)
         else (case kwds ''dist_rup'' of
                 None \<Rightarrow> Inl (MissingParameter ''dist_rup'')
               | Some d \<Rightarrow>
                  if 1000 < d then Inl (ParameterOutOfRange ''dist_rup'' d 1000)
                  else Inr \<lparr>params = [''dist_rup'' \<mapsto> d, ''mag'' \<mapsto> m],
                            ln_resp = calc_ln_resp m d COEFF,
                            ln_std = calc_ln_std m COEFF\<rparr>))"
  by (simp add: init_def check_inputs_PARAMS split: option.splits)

subsection \<open>The mean response\<close>

text \<open>
  C1. For every row of the coefficient table, the value that \<^verbatim>\<open>_calc_ln_resp\<close>
  computes at that row is the formula of the specification: with the effective distance
  \<open>sqrt (dist_rup\<^sup>2 + c11\<^sup>2)\<close>, the sum of the near-field, mid-field, far-field and
  anelastic terms is \<open>log10_resp\<close>, and the result is the natural logarithm of
  \<open>10\<close> to that power. The function reads the magnitude, the rupture distance and the
  table and nothing else. The formula is one over the real numbers, and it is defined
  where the effective distance is positive; where the effective distance is zero, the
  code takes the logarithm of zero and its result is not a finite number.
\<close>

theorem calc_ln_resp_formula:
  assumes "i < length COEFF"
  shows "(dist_rup \<noteq> 0 \<or> c11 (COEFF ! i) \<noteq> 0 \<longrightarrow>
            calc_ln_resp mag dist_rup COEFF ! i = Fin (spec_ln_resp mag dist_rup (COEFF ! i)))
       \<and> (dist_rup = 0 \<and> c11 (COEFF ! i) = 0 \<longrightarrow>
            \<not> isfinite (calc_ln_resp mag dist_rup COEFF ! i))"
proof (intro conjI impI)
  assume "dist_rup \<noteq> 0 \<or> c11 (COEFF ! i) \<noteq> 0"
  then have "0 < spec_dist dist_rup (COEFF ! i)" by (rule spec_dist_pos)
  with assms show "calc_ln_resp mag dist_rup COEFF ! i = Fin (spec_ln_resp mag dist_rup (COEFF ! i))"
    by (rule calc_ln_resp_nth)
next
  assume "dist_rup = 0 \<and> c11 (COEFF ! i) = 0"
  with assms show "\<not> isfinite (calc_ln_resp mag dist_rup COEFF ! i)"
    by (simp add: calc_ln_resp_nth_zero)
qed

theorem calc_ln_resp_formula_witness:
  "(0::nat) < length example_table \<and> (20::real) \<noteq> 0
   \<and> calc_ln_resp 6 20 example_table ! 0 = Fin (spec_ln_resp 6 20 (example_table ! 0))
   \<and> c11 ([example_row\<lparr>c11 := 0\<rparr>] ! 0) = 0
   \<and> \<not> isfinite (calc_ln_resp 6 0 [example_row\<lparr>c11 := 0\<rparr>] ! 0)"
  using calc_ln_resp_formula [of 0 example_table 20 6]
        calc_ln_resp_formula [of 0 "[example_row\<lparr>c11 := 0\<rparr>]" 0 6]
  by (simp add: example_table_def)

text \<open>
  C8. The last step takes the natural logarithm of \<open>10\<close> to the power \<open>log10_resp\<close>,
  and for every real \<open>log10_resp\<close> that is \<open>log10_resp * ln 10\<close>.
\<close>

theorem ln_power_10:
  "np_log (np_power_10 (Fin x)) = Fin (x * ln 10)
   \<and> calc_ln_resp mag dist_rup COEFF =
       map (\<lambda>v. np_log (np_power_10 v)) (calc_log10_resp mag dist_rup COEFF)"
  by (simp add: calc_ln_resp_def Let_def)

text \<open>
  C5. At the breakpoints of the trilinear model nothing is counted twice and nothing is
  left out. With \<open>x\<close> the effective distance of a row: the mid-field term is exactly
  zero for \<open>x \<le> 70\<close>, so at \<open>x = 70\<close>; it stays at its value for \<open>140\<close> once
  \<open>x \<ge> 140\<close>; and the far-field term is exactly zero for \<open>x \<le> 140\<close>, so at
  \<open>x = 140\<close>.
\<close>

theorem breakpoints:
  assumes "i < length COEFF"
      and "dist' = calc_dist dist_rup COEFF"
      and "x = sqrt (dist_rup ^ 2 + (c11 (COEFF ! i)) ^ 2)"
  shows "dist' ! i = Fin x
       \<and> (x \<le> 70 \<longrightarrow> mid_term mag dist' COEFF ! i = Fin 0)
       \<and> (140 \<le> x \<longrightarrow>
            mid_term mag dist' COEFF ! i =
              Fin ((c6 (COEFF ! i) + c7 (COEFF ! i) * mag) * log 10 (140 / 70)))
       \<and> (x \<le> 140 \<longrightarrow> far_term mag dist' COEFF ! i = Fin 0)"
proof -
  have len: "length dist' = length COEFF"
    by (simp add: assms(2) length_calc_dist)
  have di: "dist' ! i = Fin x"
    using calc_dist_nth [OF assms(1), of dist_rup] by (simp add: assms(2,3) spec_dist_def)
  have x0: "0 \<le> x" by (simp add: assms(3))
  have mid_lo: "mid_term mag dist' COEFF ! i = Fin 0" if "x \<le> 70"
  proof (cases "x = 0")
    case True
    with di show ?thesis using mid_term_nth_zero [OF assms(1) len] by simp
  next
    case False
    with x0 have pos: "0 < x" by simp
    have "log 10 (x / 70) \<le> 0" using pos that by (simp add: log_le_zero_cancel_iff)
    then have "max (min (log 10 (x / 70)) (log 10 (140 / 70))) 0 = 0" by simp
    then show ?thesis
      using mid_term_nth [OF assms(1) len di pos, of mag] by (simp only: spec_mid_def mult_zero_right)
  qed
  have mid_hi: "mid_term mag dist' COEFF ! i =
              Fin ((c6 (COEFF ! i) + c7 (COEFF ! i) * mag) * log 10 (140 / 70))" if "140 \<le> x"
  proof -
    from that have pos: "0 < x" by simp
    have "log 10 (140 / 70) \<le> log 10 (x / 70)" using that by simp
    moreover have "0 \<le> log 10 (140 / 70 :: real)" by simp
    ultimately have "max (min (log 10 (x / 70)) (log 10 (140 / 70))) 0 = log 10 (140 / 70)"
      by (simp only: min_absorb2 max_absorb1)
    then show ?thesis
      using mid_term_nth [OF assms(1) len di pos, of mag] by (simp only: spec_mid_def)
  qed
  have far_lo: "far_term mag dist' COEFF ! i = Fin 0" if "x \<le> 140"
  proof (cases "x = 0")
    case True
    with di show ?thesis using far_term_nth_zero [OF assms(1) len] by simp
  next
    case False
    with x0 have pos: "0 < x" by simp
    have "log 10 (x / 140) \<le> 0" using pos that by (simp add: log_le_zero_cancel_iff)
    then have "max (log 10 (x / 140)) 0 = 0" by simp
    then show ?thesis
      using far_term_nth [OF assms(1) len di pos, of mag] by (simp only: spec_far_def mult_zero_right)
  qed
  from di mid_lo mid_hi far_lo show ?thesis by blast
qed

theorem breakpoints_witness:
  "calc_dist 70 [example_row\<lparr>c11 := 0\<rparr>] ! 0 = Fin 70
   \<and> mid_term 6 (calc_dist 70 [example_row\<lparr>c11 := 0\<rparr>]) [example_row\<lparr>c11 := 0\<rparr>] ! 0 = Fin 0
   \<and> far_term 6 (calc_dist 70 [example_row\<lparr>c11 := 0\<rparr>]) [example_row\<lparr>c11 := 0\<rparr>] ! 0 = Fin 0
   \<and> calc_dist 140 [example_row\<lparr>c11 := 0\<rparr>] ! 0 = Fin 140
   \<and> mid_term 6 (calc_dist 140 [example_row\<lparr>c11 := 0\<rparr>]) [example_row\<lparr>c11 := 0\<rparr>] ! 0
        = Fin ((c6 example_row + c7 example_row * 6) * log 10 (140 / 70))
   \<and> far_term 6 (calc_dist 140 [example_row\<lparr>c11 := 0\<rparr>]) [example_row\<lparr>c11 := 0\<rparr>] ! 0 = Fin 0"
proof -
  let ?c = "[example_row\<lparr>c11 := 0\<rparr>]"
  have i: "0 < length ?c" by simp
  have s70: "(70::real) = sqrt (70 ^ 2 + (c11 (?c ! 0)) ^ 2)"
    and s140: "(140::real) = sqrt (140 ^ 2 + (c11 (?c ! 0)) ^ 2)"
    by (simp_all add: real_sqrt_abs del: power_numeral)
  from breakpoints [OF i refl s70, of 6] breakpoints [OF i refl s140, of 6]
  show ?thesis by simp
qed

subsection \<open>The standard deviation\<close>

text \<open>
  C2. For every row, \<^verbatim>\<open>_calc_ln_std\<close> computes
  \<open>sqrt (ln_std_mean\<^sup>2 + sigma_reg\<^sup>2)\<close>, where \<open>ln_std_mean\<close> is
  \<open>c12 * mag + c13\<close> for a magnitude of at most \<open>7\<close> and \<open>-6.95e-3 * mag + c14\<close>
  above, the slope being the same literal for every period. At a magnitude of exactly
  \<open>7\<close> the first branch is the one taken.
\<close>

theorem calc_ln_std_formula:
  assumes "i < length COEFF"
  shows "(mag \<le> 7 \<longrightarrow>
            calc_ln_std mag COEFF ! i =
              Fin (sqrt ((c12 (COEFF ! i) * mag + c13 (COEFF ! i)) ^ 2 + (sigma_reg (COEFF ! i)) ^ 2)))
       \<and> (7 < mag \<longrightarrow>
            calc_ln_std mag COEFF ! i =
              Fin (sqrt ((- (695 / 100000) * mag + c14 (COEFF ! i)) ^ 2 + (sigma_reg (COEFF ! i)) ^ 2)))
       \<and> calc_ln_std 7 COEFF ! i =
              Fin (sqrt ((c12 (COEFF ! i) * 7 + c13 (COEFF ! i)) ^ 2 + (sigma_reg (COEFF ! i)) ^ 2))"
  using calc_ln_std_nth [OF assms, of mag] calc_ln_std_nth [OF assms, of 7]
  by (simp add: spec_ln_std_def spec_ln_std_mean_def)

theorem calc_ln_std_formula_witness:
  "(0::nat) < length example_table \<and> (6::real) \<le> 7 \<and> (7::real) < 15 / 2
   \<and> calc_ln_std 6 example_table ! 0 = Fin (sqrt ((c12 example_row * 6 + c13 example_row) ^ 2 + (sigma_reg example_row) ^ 2))
   \<and> calc_ln_std (15 / 2) example_table ! 0 = Fin (sqrt ((- (695 / 100000) * (15 / 2) + c14 example_row) ^ 2 + (sigma_reg example_row) ^ 2))
   \<and> calc_ln_std 7 example_table ! 0 = Fin (sqrt ((c12 example_row * 7 + c13 example_row) ^ 2 + (sigma_reg example_row) ^ 2))"
  using calc_ln_std_formula [of 0 example_table 6] calc_ln_std_formula [of 0 example_table "15 / 2"]
  by (simp add: example_table_def)

text \<open>
  C10. For every row and every magnitude, the standard deviation is the finite number
  \<open>sqrt (ln_std_mean\<^sup>2 + sigma_reg\<^sup>2)\<close>, which is at least the absolute value of the
  row's \<open>sigma_reg\<close>, itself not negative: no element of \<open>ln_std\<close> is negative or
  smaller than the regional uncertainty of its row.
\<close>

theorem ln_std_lower_bound:
  assumes "i < length COEFF"
  shows "calc_ln_std mag COEFF ! i =
           Fin (sqrt ((spec_ln_std_mean mag (COEFF ! i)) ^ 2 + (sigma_reg (COEFF ! i)) ^ 2))
       \<and> \<bar>sigma_reg (COEFF ! i)\<bar>
           \<le> sqrt ((spec_ln_std_mean mag (COEFF ! i)) ^ 2 + (sigma_reg (COEFF ! i)) ^ 2)
       \<and> 0 \<le> \<bar>sigma_reg (COEFF ! i)\<bar>"
  using calc_ln_std_nth [OF assms, of mag]
  by (simp add: spec_ln_std_def abs_le_sqrt_sum)

theorem ln_std_lower_bound_witness:
  "(0::nat) < length example_table
   \<and> calc_ln_std 6 example_table ! 0 =
       Fin (sqrt ((spec_ln_std_mean 6 (example_table ! 0)) ^ 2 + (sigma_reg (example_table ! 0)) ^ 2))
   \<and> \<bar>sigma_reg (example_table ! 0)\<bar>
       \<le> sqrt ((spec_ln_std_mean 6 (example_table ! 0)) ^ 2 + (sigma_reg (example_table ! 0)) ^ 2)"
  using ln_std_lower_bound [of 0 example_table 6]
  by (simp add: example_table_def)

subsection \<open>Construction\<close>

text \<open>
  C3. Construction with a magnitude below \<open>5\<close> or above \<open>8\<close> fails with
  \<open>ParameterOutOfRange\<close> for the magnitude and leaves no instance behind; a magnitude
  from \<open>5\<close> to \<open>8\<close>, with a distance that passes its own check, is accepted, and the
  instance holds the values as they were given.
\<close>

theorem init_mag_range:
  assumes "kwds ''mag'' = Some m"
  shows "(m < 5 \<longrightarrow> init kwds COEFF = Inl (ParameterOutOfRange ''mag'' m 5))
       \<and> (8 < m \<longrightarrow> init kwds COEFF = Inl (ParameterOutOfRange ''mag'' m 8))
       \<and> (m < 5 \<or> 8 < m \<longrightarrow> (\<forall>mdl. init kwds COEFF \<noteq> Inr mdl))
       \<and> (5 \<le> m \<and> m \<le> 8 \<and> kwds ''dist_rup'' = Some d \<and> d \<le> 1000 \<longrightarrow>
            (\<exists>mdl. init kwds COEFF = Inr mdl \<and> params mdl ''mag'' = Some m
                   \<and> params mdl ''dist_rup'' = Some d))"
  using assms by (auto simp add: init_eq)

theorem init_mag_range_witness:
  "init [''mag'' \<mapsto> 49 / 10, ''dist_rup'' \<mapsto> 20] example_table = Inl (ParameterOutOfRange ''mag'' (49 / 10) 5)
   \<and> init [''mag'' \<mapsto> 81 / 10, ''dist_rup'' \<mapsto> 20] example_table = Inl (ParameterOutOfRange ''mag'' (81 / 10) 8)
   \<and> (\<forall>mdl. init [''mag'' \<mapsto> 49 / 10, ''dist_rup'' \<mapsto> 20] example_table \<noteq> Inr mdl)
   \<and> (\<exists>mdl. init [''mag'' \<mapsto> 5, ''dist_rup'' \<mapsto> 20] example_table = Inr mdl
             \<and> params mdl ''mag'' = Some 5 \<and> params mdl ''dist_rup'' = Some 20)
   \<and> (\<exists>mdl. init [''mag'' \<mapsto> 8, ''dist_rup'' \<mapsto> 20] example_table = Inr mdl
             \<and> params mdl ''mag'' = Some 8 \<and> params mdl ''dist_rup'' = Some 20)"
  using init_mag_range [of "[''mag'' \<mapsto> 49 / 10, ''dist_rup'' \<mapsto> 20]" "49 / 10" example_table 20]
        init_mag_range [of "[''mag'' \<mapsto> 81 / 10, ''dist_rup'' \<mapsto> 20]" "81 / 10" example_table 20]
        init_mag_range [of "[''mag'' \<mapsto> 5, ''dist_rup'' \<mapsto> 20]" 5 example_table 20]
        init_mag_range [of "[''mag'' \<mapsto> 8, ''dist_rup'' \<mapsto> 20]" 8 example_table 20]
  by simp




text \<open>
  C9. Two accepted instances with the same magnitude have the same \<open>ln_std\<close>, whatever
  their rupture distances; if the rupture distances are \<open>d\<close> and \<open>-d\<close>, they have the
  same \<open>ln_resp\<close> as well.
\<close>

theorem sign_invariance:
  assumes "init kwds1 COEFF = Inr m1" and "init kwds2 COEFF = Inr m2"
      and "kwds1 ''mag'' = kwds2 ''mag''"
  shows "ln_std m1 = ln_std m2
       \<and> (\<forall>d. kwds1 ''dist_rup'' = Some d \<and> kwds2 ''dist_rup'' = Some (- d) \<longrightarrow>
              ln_resp m1 = ln_resp m2)"
  using assms
  by (auto simp add: init_eq calc_ln_resp_sign split: option.splits if_splits)

theorem sign_invariance_witness:
  "ln_std \<lparr>params = [''dist_rup'' \<mapsto> 20, ''mag'' \<mapsto> 6],
          ln_resp = calc_ln_resp 6 20 example_table, ln_std = calc_ln_std 6 example_table\<rparr>
     = ln_std \<lparr>params = [''dist_rup'' \<mapsto> - 20, ''mag'' \<mapsto> 6],
          ln_resp = calc_ln_resp 6 (- 20) example_table, ln_std = calc_ln_std 6 example_table\<rparr>
   \<and> calc_ln_resp 6 20 example_table = calc_ln_resp 6 (- 20) example_table"
proof -
  have a: "init [''mag'' \<mapsto> 6, ''dist_rup'' \<mapsto> 20] example_table =
          Inr \<lparr>params = [''dist_rup'' \<mapsto> 20, ''mag'' \<mapsto> 6],
               ln_resp = calc_ln_resp 6 20 example_table,
               ln_std = calc_ln_std 6 example_table\<rparr>"
    by (simp add: init_eq)
  have b: "init [''mag'' \<mapsto> 6, ''dist_rup'' \<mapsto> - 20] example_table =
          Inr \<lparr>params = [''dist_rup'' \<mapsto> - 20, ''mag'' \<mapsto> 6],
               ln_resp = calc_ln_resp 6 (- 20) example_table,
               ln_std = calc_ln_std 6 example_table\<rparr>"
    by (simp add: init_eq)
  from sign_invariance [OF a b] show ?thesis by simp
qed

end
